theory Spec2Isabelle
  imports Main "HOL-Library.Word" "HOL-Library.Char_ord" "HOL-Library.List_Lexorder"
begin

section \<open>Data model (pkg/models)\<close>

text \<open>
  \<^verbatim>\<open>JobStatus\<close> and \<^verbatim>\<open>TaskStatus\<close> are string types with four constants each; the
  program only ever writes those constants, so they are enumerations here.
\<close>

datatype JobStatus = JobStatusQueued | JobStatusRunning | JobStatusCompleted | JobStatusFailed

datatype TaskStatus = TaskStatusPending | TaskStatusRunning | TaskStatusCompleted | TaskStatusFailed

text \<open>\<^verbatim>\<open>MaxRetry\<close> is a Go \<^verbatim>\<open>int\<close>. The only arithmetic on it is the loop counter of
  \<^verbatim>\<open>executeTask\<close>, which never exceeds it, so no wrap-around is involved.\<close>

record Task =
  task_ID :: string
  task_Name :: string
  task_MaxRetry :: int
  task_FunctionName :: string

record JobDefinition =
  jd_ID :: string
  jd_Name :: string
  jd_Tasks :: "Task list"

text \<open>
  A \<^verbatim>\<open>time.Time\<close> is \<open>None\<close> for the zero value and \<open>Some t\<close> for the instant whose
  \<^verbatim>\<open>UnixNano()\<close> is \<open>sint t\<close>. The input payload \<^verbatim>\<open>Data\<close> is opaque (type \<open>'d\<close>).
  \<^verbatim>\<open>TaskStatuses\<close> is a Go map; a missing key is \<open>None\<close> (a nil map and an empty map
  behave alike for every read and, after the \<^verbatim>\<open>make\<close> in \<^verbatim>\<open>ExecuteJob\<close>, for every write).
\<close>

type_synonym Time = "64 word option"

record 'd JobExecution =
  je_ID :: string
  je_DefinitionID :: string
  je_Status :: JobStatus
  je_StartTime :: Time
  je_EndTime :: Time
  je_Data :: 'd
  je_TaskStatuses :: "string \<rightharpoonup> TaskStatus"

section \<open>The bbolt bucket\<close>

text \<open>
  The storage layer keeps everything in buckets of the bbolt key/value store. A bucket
  holds its keys in byte-sorted order, each key once: \<^verbatim>\<open>Put\<close> inserts or overwrites and
  refuses a blank key and a key longer than 32768 bytes, \<^verbatim>\<open>Get\<close> looks a key up,
  \<^verbatim>\<open>Delete\<close> removes a key and does nothing for a missing one, \<^verbatim>\<open>Cursor.First\<close> is the
  entry with the smallest key, and \<^verbatim>\<open>ForEach\<close> visits the entries in key order.
  Go strings are byte sequences, compared bytewise: \<open>(<)\<close> on \<open>string\<close>.
\<close>

type_synonym 'v bucket = "(string \<times> 'v) list"

fun bucket_insert :: "string \<Rightarrow> 'v \<Rightarrow> 'v bucket \<Rightarrow> 'v bucket" where
  "bucket_insert k v [] = [(k, v)]"
| "bucket_insert k v ((k', v') # b) =
     (if k < k' then (k, v) # (k', v') # b
      else if k = k' then (k, v) # b
      else (k', v') # bucket_insert k v b)"

definition bucket_Put :: "string \<Rightarrow> 'v \<Rightarrow> 'v bucket \<Rightarrow> string + 'v bucket" where
  "bucket_Put k v b =
     (if k = [] then Inl ''key required''
      else if length k > 32768 then Inl ''key too large''
      else Inr (bucket_insert k v b))"

definition bucket_Get :: "string \<Rightarrow> 'v bucket \<Rightarrow> 'v option" where
  "bucket_Get k b = map_of b k"

definition bucket_Delete :: "string \<Rightarrow> 'v bucket \<Rightarrow> 'v bucket" where
  "bucket_Delete k b = filter (\<lambda>(k', v). k' \<noteq> k) b"

definition cursor_First :: "'v bucket \<Rightarrow> string option" where
  "cursor_First b = (case b of [] \<Rightarrow> None | (k, v) # _ \<Rightarrow> Some k)"

section \<open>Storage (internal/storage/boltdb.go)\<close>

text \<open>
  The database has the three buckets that \<^verbatim>\<open>NewBoltDB\<close> creates. The queue bucket is
  optional in the model because the queue operations test it against \<^verbatim>\<open>nil\<close>.

  A bbolt transaction can fail for reasons outside the program (I/O, a closed database,
  a value that does not marshal). Those failures come from \<open>faults\<close>, a schedule carried
  in the state: every transaction takes the head of the schedule and fails with that
  message if there is one, changing nothing else. An empty schedule means no such
  failure. \<open>committed\<close> is the history of execution records written so far, oldest
  first: what somebody polling the store can have seen. Nothing reads it.

  A Go \<^verbatim>\<open>error\<close> is its message (the scheduler compares \<^verbatim>\<open>err.Error()\<close>); \<open>None\<close> is
  \<^verbatim>\<open>nil\<close>, and a \<^verbatim>\<open>(T, error)\<close> result is \<open>string + T\<close>.
\<close>

record 'd BoltDB =
  job_definitions :: "JobDefinition bucket"
  job_executions :: "'d JobExecution bucket"
  queue :: "unit bucket option"
  faults :: "string option list"
  committed :: "'d JobExecution list"

definition NewBoltDB :: "string option list \<Rightarrow> 'd BoltDB" where
  "NewBoltDB fs = \<lparr>job_definitions = [], job_executions = [], queue = Some [],
     faults = fs, committed = []\<rparr>"

definition begin_tx :: "'d BoltDB \<Rightarrow> string option \<times> 'd BoltDB" where
  "begin_tx b = (case faults b of [] \<Rightarrow> (None, b) | f # fs \<Rightarrow> (f, b\<lparr>faults := fs\<rparr>))"

definition StoreJobDefinition :: "JobDefinition \<Rightarrow> 'd BoltDB \<Rightarrow> string option \<times> 'd BoltDB" where
  "StoreJobDefinition jd b =
     (case begin_tx b of
        (Some e, b') \<Rightarrow> (Some e, b')
      | (None, b') \<Rightarrow>
          (case bucket_Put (jd_ID jd) jd (job_definitions b') of
             Inl e \<Rightarrow> (Some e, b')
           | Inr bk \<Rightarrow> (None, b'\<lparr>job_definitions := bk\<rparr>)))"

definition GetJobDefinition :: "string \<Rightarrow> 'd BoltDB \<Rightarrow> (string + JobDefinition) \<times> 'd BoltDB" where
  "GetJobDefinition i b =
     (case begin_tx b of
        (Some e, b') \<Rightarrow> (Inl e, b')
      | (None, b') \<Rightarrow>
          (case bucket_Get i (job_definitions b') of
             None \<Rightarrow> (Inl ''job definition not found'', b')
           | Some jd \<Rightarrow> (Inr jd, b')))"

definition GetRunningJobs :: "'d BoltDB \<Rightarrow> (string + string list) \<times> 'd BoltDB" where
  "GetRunningJobs b =
     (case begin_tx b of
        (Some e, b') \<Rightarrow> (Inl e, b')
      | (None, b') \<Rightarrow>
          (Inr (map (\<lambda>(k, je). je_ID je)
                  (filter (\<lambda>(k, je). je_Status je = JobStatusRunning) (job_executions b'))), b'))"

definition StoreJobExecution :: "'d JobExecution \<Rightarrow> 'd BoltDB \<Rightarrow> string option \<times> 'd BoltDB" where
  "StoreJobExecution je b =
     (case begin_tx b of
        (Some e, b') \<Rightarrow> (Some e, b')
      | (None, b') \<Rightarrow>
          (case bucket_Put (je_ID je) je (job_executions b') of
             Inl e \<Rightarrow> (Some e, b')
           | Inr bk \<Rightarrow> (None, b'\<lparr>job_executions := bk, committed := committed b' @ [je]\<rparr>)))"

definition GetJobExecution :: "string \<Rightarrow> 'd BoltDB \<Rightarrow> (string + 'd JobExecution) \<times> 'd BoltDB" where
  "GetJobExecution i b =
     (case begin_tx b of
        (Some e, b') \<Rightarrow> (Inl e, b')
      | (None, b') \<Rightarrow>
          (case bucket_Get i (job_executions b') of
             None \<Rightarrow> (Inl ''job execution not found'', b')
           | Some je \<Rightarrow> (Inr je, b')))"

definition UpdateJobExecution :: "'d JobExecution \<Rightarrow> 'd BoltDB \<Rightarrow> string option \<times> 'd BoltDB" where
  "UpdateJobExecution je b = StoreJobExecution je b"

definition GetQueuedJobs :: "'d BoltDB \<Rightarrow> (string + string list) \<times> 'd BoltDB" where
  "GetQueuedJobs b =
     (case begin_tx b of
        (Some e, b') \<Rightarrow> (Inl e, b')
      | (None, b') \<Rightarrow>
          (case queue b' of
             None \<Rightarrow> (Inr [], b')
           | Some q \<Rightarrow> (Inr (map fst q), b')))"

definition EnqueueJob :: "string \<Rightarrow> 'd BoltDB \<Rightarrow> string option \<times> 'd BoltDB" where
  "EnqueueJob jobID b =
     (case begin_tx b of
        (Some e, b') \<Rightarrow> (Some e, b')
      | (None, b') \<Rightarrow>
          (case queue b' of
             None \<Rightarrow> (Some ''queue bucket not found'', b')
           | Some q \<Rightarrow>
               (case bucket_Put jobID () q of
                  Inl e \<Rightarrow> (Some e, b')
                | Inr q' \<Rightarrow> (None, b'\<lparr>queue := Some q'\<rparr>))))"

definition DequeueJob :: "'d BoltDB \<Rightarrow> (string + string) \<times> 'd BoltDB" where
  "DequeueJob b =
     (case begin_tx b of
        (Some e, b') \<Rightarrow> (Inl e, b')
      | (None, b') \<Rightarrow>
          (case queue b' of
             None \<Rightarrow> (Inl ''queue bucket not found'', b')
           | Some q \<Rightarrow>
               (case cursor_First q of
                  None \<Rightarrow> (Inl ''queue is empty'', b')
                | Some k \<Rightarrow> (Inr k, b'\<lparr>queue := Some (bucket_Delete k q)\<rparr>))))"

definition GetQueuedJobCount :: "'d BoltDB \<Rightarrow> (string + nat) \<times> 'd BoltDB" where
  "GetQueuedJobCount b =
     (case begin_tx b of
        (Some e, b') \<Rightarrow> (Inl e, b')
      | (None, b') \<Rightarrow>
          (case queue b' of
             None \<Rightarrow> (Inr 0, b')
           | Some q \<Rightarrow> (Inr (length q), b')))"

definition RemoveFromQueue :: "string \<Rightarrow> 'd BoltDB \<Rightarrow> string option \<times> 'd BoltDB" where
  "RemoveFromQueue jobID b =
     (case begin_tx b of
        (Some e, b') \<Rightarrow> (Some e, b')
      | (None, b') \<Rightarrow>
          (case queue b' of
             None \<Rightarrow> (Some ''queue bucket not found'', b')
           | Some q \<Rightarrow> (None, b'\<lparr>queue := Some (bucket_Delete jobID q)\<rparr>)))"

section \<open>The orchestrator (internal/orchestrator)\<close>

subsection \<open>Environment\<close>

text \<open>
  What the orchestrator does to the outside is kept in its state: \<open>world\<close> is whatever
  the task implementations read and change (type \<open>'w\<close>), \<open>now\<close> is the clock that
  \<^verbatim>\<open>time.Now()\<close> reads, and \<open>trace\<close> lists, in order, every call of a task
  implementation, every \<^verbatim>\<open>time.Sleep\<close> with the duration passed to it (in nanoseconds,
  signed) and every line written with \<^verbatim>\<open>log.Printf\<close>.

  A \<^verbatim>\<open>context.Context\<close> is read through \<^verbatim>\<open>Done()\<close> and \<^verbatim>\<open>Err()\<close> only: it maps the
  world to \<open>Some err\<close> once it is cancelled. A task implementation gets the context,
  the data and the world, and returns its error and the new world; it does not touch
  the orchestrator's own store.

  \<^verbatim>\<open>go f(x)\<close> appends the call to \<open>spawned\<close>; \<open>workerPool\<close> is the number of units
  sitting in the buffered channel of capacity \<open>maxConcurrent\<close>.
\<close>

datatype event = Invoke string | Sleep int | Log string

datatype goroutine = Go_processQueue | Go_ExecuteJob string | Go_worker string

type_synonym 'w Context = "'w \<Rightarrow> string option"

type_synonym ('d, 'w) TaskFunction = "'w Context \<Rightarrow> 'd \<Rightarrow> 'w \<Rightarrow> string option \<times> 'w"

record ('d, 'w) Orchestrator =
  db :: "'d BoltDB"
  workerPool :: nat
  ongoingJobs :: "string set"
  taskFunctions :: "string \<rightharpoonup> ('d, 'w) TaskFunction"
  maxConcurrent :: int
  stop :: bool
  done_closed :: bool
  spawned :: "goroutine list"
  world :: 'w
  now :: "64 word"
  trace :: "event list"

definition Background :: "'w Context" where
  "Background = (\<lambda>w. None)"

text \<open>\<^verbatim>\<open>time.Sleep\<close> returns at once for a duration that is not positive.\<close>

definition time_Sleep :: "int \<Rightarrow> ('d, 'w) Orchestrator \<Rightarrow> ('d, 'w) Orchestrator" where
  "time_Sleep d s = s\<lparr>now := (if 0 < d then now s + word_of_int d else now s),
     trace := trace s @ [Sleep d]\<rparr>"

definition log_Printf :: "string \<Rightarrow> ('d, 'w) Orchestrator \<Rightarrow> ('d, 'w) Orchestrator" where
  "log_Printf msg s = s\<lparr>trace := trace s @ [Log msg]\<rparr>"

text \<open>The verb \<^verbatim>\<open>%d\<close> of \<^verbatim>\<open>fmt\<close>: decimal digits, with a minus sign when negative.\<close>

definition digit_char :: "nat \<Rightarrow> char" where
  "digit_char n = ''0123456789'' ! n"

function show_nat :: "nat \<Rightarrow> string" where
  "show_nat n = (if n < 10 then [digit_char n] else show_nat (n div 10) @ [digit_char (n mod 10)])"
  by pat_completeness auto
termination
  by (relation "measure id") auto

declare show_nat.simps [simp del]

definition show_int :: "int \<Rightarrow> string" where
  "show_int i = (if i < 0 then CHR ''-'' # show_nat (nat (- i)) else show_nat (nat i))"

subsection \<open>task.go\<close>


text \<open>
  \<^verbatim>\<open>time.Duration(1<<retries) * time.Second\<close>: the shift and the product are computed in
  \<^verbatim>\<open>time.Duration\<close>, a signed 64-bit count of nanoseconds, and wrap around.
\<close>

definition backoff :: "int \<Rightarrow> int" where
  "backoff retries = sint (push_bit (nat retries) (1 :: 64 word) * 1000000000)"

text \<open>The \<^verbatim>\<open>for retries := 0; retries <= task.MaxRetry; retries++\<close> loop of \<^verbatim>\<open>executeTask\<close>.\<close>

function retry_loop ::
  "'w Context \<Rightarrow> ('d, 'w) TaskFunction \<Rightarrow> Task \<Rightarrow> 'd \<Rightarrow> int \<Rightarrow> ('d, 'w) Orchestrator
     \<Rightarrow> string option \<times> ('d, 'w) Orchestrator" where
  "retry_loop ctx fn task data retries s =
     (if retries \<le> task_MaxRetry task then
        (case fn ctx data (world s) of
           (err, w') \<Rightarrow>
             (let s1 = s\<lparr>world := w', trace := trace s @ [Invoke (task_ID task)]\<rparr> in
              case err of
                None \<Rightarrow> (None, s1)
              | Some e \<Rightarrow>
                  if retries = task_MaxRetry task
                  then (Some (''task '' @ task_ID task @ '' failed after ''
                          @ show_int (task_MaxRetry task) @ '' retries: '' @ e), s1)
                  else retry_loop ctx fn task data (retries + 1) (time_Sleep (backoff retries) s1)))
      else (Some (''task '' @ task_ID task @ '' failed after ''
              @ show_int (task_MaxRetry task) @ '' retries''), s))"
  by pat_completeness auto
termination
  by (relation "measure (\<lambda>(ctx, fn, task, data, retries, s). nat (task_MaxRetry task + 1 - retries))")
     auto

declare retry_loop.simps [simp del]

definition executeTask ::
  "'w Context \<Rightarrow> Task \<Rightarrow> 'd \<Rightarrow> ('d, 'w) Orchestrator \<Rightarrow> string option \<times> ('d, 'w) Orchestrator" where
  "executeTask ctx task data s =
     (case taskFunctions s (task_ID task) of
        None \<Rightarrow> (Some (''no function registered for task ID: '' @ task_ID task), s)
      | Some fn \<Rightarrow> retry_loop ctx fn task data 0 s)"

subsection \<open>job.go\<close>


text \<open>The recurring \<^verbatim>\<open>if err := o.db.UpdateJobExecution(je); err != nil { log.Printf(...) }\<close>.\<close>

definition update_or_log ::
  "string \<Rightarrow> 'd JobExecution \<Rightarrow> ('d, 'w) Orchestrator \<Rightarrow> ('d, 'w) Orchestrator" where
  "update_or_log msg je s =
     (case UpdateJobExecution je (db s) of
        (None, b) \<Rightarrow> s\<lparr>db := b\<rparr>
      | (Some e, b) \<Rightarrow> log_Printf (msg @ e) (s\<lparr>db := b\<rparr>))"

text \<open>
  The \<^verbatim>\<open>for _, task := range jd.Tasks\<close> loop of \<^verbatim>\<open>ExecuteJob\<close>. It works on \<^verbatim>\<open>je\<close>, the
  record loaded at the start of \<^verbatim>\<open>ExecuteJob\<close>, and returns it with the error, since the
  deferred cleanup reads it.
\<close>

fun run_tasks ::
  "'w Context \<Rightarrow> Task list \<Rightarrow> 'd JobExecution \<Rightarrow> ('d, 'w) Orchestrator
     \<Rightarrow> string option \<times> 'd JobExecution \<times> ('d, 'w) Orchestrator" where
  "run_tasks ctx [] je s = (None, je, s)"
| "run_tasks ctx (task # rest) je s =
     (case ctx (world s) of
        Some cerr \<Rightarrow>
          (Some cerr,
           je\<lparr>je_Status := JobStatusFailed,
              je_TaskStatuses := (je_TaskStatuses je)(task_ID task \<mapsto> TaskStatusFailed)\<rparr>, s)
      | None \<Rightarrow>
          (let je1 = je\<lparr>je_TaskStatuses := (je_TaskStatuses je)(task_ID task \<mapsto> TaskStatusRunning)\<rparr>;
               s1 = update_or_log ''Failed to update task status to running: '' je1 s
           in case executeTask ctx task (je_Data je1) s1 of
                (Some e, s2) \<Rightarrow>
                  (let je2 = je1\<lparr>je_TaskStatuses := (je_TaskStatuses je1)(task_ID task \<mapsto> TaskStatusFailed),
                                je_Status := JobStatusFailed\<rparr>;
                       s3 = update_or_log ''Failed to update job execution after task failure: '' je2 s2
                   in (Some (''task '' @ task_ID task @ '' failed: '' @ e), je2, s3))
              | (None, s2) \<Rightarrow>
                  (let je2 = je1\<lparr>je_TaskStatuses := (je_TaskStatuses je1)(task_ID task \<mapsto> TaskStatusCompleted)\<rparr>;
                       s3 = update_or_log ''Failed to update task status to completed: '' je2 s2
                   in run_tasks ctx rest je2 s3)))"

text \<open>The deferred function of \<^verbatim>\<open>ExecuteJob\<close>.\<close>

definition cleanup ::
  "string \<Rightarrow> 'd JobExecution \<Rightarrow> ('d, 'w) Orchestrator \<Rightarrow> ('d, 'w) Orchestrator" where
  "cleanup executionID je s =
     (let s1 = s\<lparr>ongoingJobs := ongoingJobs s - {executionID}\<rparr>;
          je1 = je\<lparr>je_EndTime := Some (now s1)\<rparr>;
          s2 = update_or_log ''Failed to update job execution after completion: '' je1 s1
      in case RemoveFromQueue executionID (db s2) of
           (None, b) \<Rightarrow> s2\<lparr>db := b\<rparr>
         | (Some e, b) \<Rightarrow>
             log_Printf (''Failed to remove job '' @ executionID @ '' from queue: '' @ e) (s2\<lparr>db := b\<rparr>))"

definition ExecuteJob ::
  "'w Context \<Rightarrow> string \<Rightarrow> ('d, 'w) Orchestrator \<Rightarrow> string option \<times> ('d, 'w) Orchestrator" where
  "ExecuteJob ctx executionID s =
     (case GetJobExecution executionID (db s) of
        (Inl e, b1) \<Rightarrow> (Some (''failed to get job execution: '' @ e), s\<lparr>db := b1\<rparr>)
      | (Inr je, b1) \<Rightarrow>
          if je_Status je = JobStatusCompleted \<or> je_Status je = JobStatusFailed
          then (None, s\<lparr>db := b1\<rparr>)
          else
            (case GetJobDefinition (je_DefinitionID je) b1 of
               (Inl e, b2) \<Rightarrow> (Some (''failed to get job definition: '' @ e), s\<lparr>db := b2\<rparr>)
             | (Inr jd, b2) \<Rightarrow>
                 (let je1 = je\<lparr>je_Status := JobStatusRunning\<rparr> in
                  case UpdateJobExecution je1 b2 of
                    (Some e, b3) \<Rightarrow>
                      (Some (''failed to update job execution status to running: '' @ e), s\<lparr>db := b3\<rparr>)
                  | (None, b3) \<Rightarrow>
                      (let s1 = s\<lparr>db := b3, ongoingJobs := insert executionID (ongoingJobs s)\<rparr> in
                       case run_tasks ctx (jd_Tasks jd) je1 s1 of
                         (Some e, je2, s2) \<Rightarrow> (Some e, cleanup executionID je2 s2)
                       | (None, je2, s2) \<Rightarrow>
                           (let je3 = je2\<lparr>je_Status := JobStatusCompleted\<rparr> in
                            case UpdateJobExecution je3 (db s2) of
                              (Some e, b4) \<Rightarrow>
                                (Some (''failed to update job execution status to completed: '' @ e),
                                 cleanup executionID je3 (s2\<lparr>db := b4\<rparr>))
                            | (None, b4) \<Rightarrow> (None, cleanup executionID je3 (s2\<lparr>db := b4\<rparr>)))))))"

subsection \<open>orchestrator.go\<close>

fun recover_loop :: "string list \<Rightarrow> ('d, 'w) Orchestrator \<Rightarrow> ('d, 'w) Orchestrator" where
  "recover_loop [] s = s"
| "recover_loop (jobID # rest) s =
     recover_loop rest (s\<lparr>ongoingJobs := insert jobID (ongoingJobs s),
                          spawned := spawned s @ [Go_ExecuteJob jobID]\<rparr>)"

definition recoverState :: "('d, 'w) Orchestrator \<Rightarrow> string option \<times> ('d, 'w) Orchestrator" where
  "recoverState s =
     (case GetRunningJobs (db s) of
        (Inl e, b) \<Rightarrow> (Some e, s\<lparr>db := b\<rparr>)
      | (Inr runningJobs, b) \<Rightarrow> (None, recover_loop runningJobs (s\<lparr>db := b\<rparr>)))"

text \<open>\<^verbatim>\<open>make(chan struct{}, maxConcurrent)\<close> panics for a negative capacity.\<close>

definition New :: "'d BoltDB \<Rightarrow> int \<Rightarrow> 'w \<Rightarrow> 64 word \<Rightarrow> string + ('d, 'w) Orchestrator" where
  "New b maxConc w t =
     (if maxConc < 0 then Inl ''panic: makechan: size out of range''
      else
        (let s = \<lparr>db = b, workerPool = 0, ongoingJobs = {}, taskFunctions = Map.empty,
                  maxConcurrent = maxConc, stop = False, done_closed = False, spawned = [],
                  world = w, now = t, trace = []\<rparr> in
         case recoverState s of
           (Some e, s') \<Rightarrow> Inl (''failed to recover state: '' @ e)
         | (None, s') \<Rightarrow> Inr (s'\<lparr>spawned := spawned s' @ [Go_processQueue]\<rparr>)))"

text \<open>
  One pass through the body of the \<^verbatim>\<open>for\<close> loop of \<^verbatim>\<open>processQueue\<close>. \<open>Returned\<close>: the
  stop signal was received and the function returned, closing \<^verbatim>\<open>done\<close>. \<open>Continue\<close>: the
  loop goes round again. \<open>Blocked jobID\<close>: the loop holds a dequeued id and waits on the
  send to the full worker pool.
\<close>

datatype loop_step = Returned | Continue | Blocked string

definition processQueue_step :: "('d, 'w) Orchestrator \<Rightarrow> loop_step \<times> ('d, 'w) Orchestrator" where
  "processQueue_step s =
     (if stop s then (Returned, s\<lparr>stop := False, done_closed := True\<rparr>)
      else
        (case DequeueJob (db s) of
           (Inl e, b) \<Rightarrow>
             if e = ''queue is empty'' then (Continue, time_Sleep 1000000000 (s\<lparr>db := b\<rparr>))
             else (Continue, log_Printf (''Error dequeuing job: '' @ e) (s\<lparr>db := b\<rparr>))
         | (Inr jobID, b) \<Rightarrow>
             if int (workerPool s) < maxConcurrent s
             then (Continue, s\<lparr>db := b, workerPool := workerPool s + 1,
                                spawned := spawned s @ [Go_worker jobID]\<rparr>)
             else (Blocked jobID, s\<lparr>db := b\<rparr>)))"

text \<open>The loop itself, for at most \<open>n\<close> passes.\<close>

fun processQueue :: "nat \<Rightarrow> ('d, 'w) Orchestrator \<Rightarrow> loop_step \<times> ('d, 'w) Orchestrator" where
  "processQueue 0 s = (Continue, s)"
| "processQueue (Suc n) s =
     (case processQueue_step s of
        (Continue, s') \<Rightarrow> processQueue n s'
      | (r, s') \<Rightarrow> (r, s'))"



section \<open>Notions used in the statements\<close>

text \<open>A key that \<^verbatim>\<open>Bucket.Put\<close> accepts.\<close>

definition valid_key :: "string \<Rightarrow> bool" where
  "valid_key k \<longleftrightarrow> k \<noteq> [] \<and> length k \<le> 32768"

text \<open>What a task that fails at every attempt leaves in the trace, from attempt \<open>i\<close>
  on: each attempt but the last is followed by its back-off sleep.\<close>

definition attempt_events :: "string \<Rightarrow> int \<Rightarrow> int \<Rightarrow> event list" where
  "attempt_events tid R i =
     concat (map (\<lambda>k. [Invoke tid, Sleep (backoff k)]) [i..R - 1]) @ [Invoke tid]"

text \<open>What a successful \<^verbatim>\<open>UpdateJobExecution\<close> does to the orchestrator's state.\<close>

definition persist :: "'d JobExecution \<Rightarrow> ('d, 'w) Orchestrator \<Rightarrow> ('d, 'w) Orchestrator" where
  "persist je s = s\<lparr>db := (db s)\<lparr>job_executions := bucket_insert (je_ID je) je (job_executions (db s)),
       committed := committed (db s) @ [je]\<rparr>\<rparr>"

text \<open>The status map after giving the status \<open>st\<close> to the listed task ids, in order.\<close>

definition mark_all :: "TaskStatus \<Rightarrow> string list \<Rightarrow> (string \<rightharpoonup> TaskStatus) \<Rightarrow> (string \<rightharpoonup> TaskStatus)" where
  "mark_all st ids m = foldl (\<lambda>m i. m(i \<mapsto> st)) m ids"

text \<open>A task whose registered implementation returns \<^verbatim>\<open>nil\<close> on every call, or an error
  on every call; \<^verbatim>\<open>maxRetry\<close> is not negative, as the data model requires.\<close>

definition always_succeeds :: "('d, 'w) Orchestrator \<Rightarrow> Task \<Rightarrow> bool" where
  "always_succeeds s t \<longleftrightarrow>
     (\<exists>fn. taskFunctions s (task_ID t) = Some fn \<and> (\<forall>c d w. fst (fn c d w) = None))
     \<and> 0 \<le> task_MaxRetry t"

definition always_fails :: "('d, 'w) Orchestrator \<Rightarrow> Task \<Rightarrow> bool" where
  "always_fails s t \<longleftrightarrow>
     (\<exists>fn. taskFunctions s (task_ID t) = Some fn \<and> (\<forall>c d w. fst (fn c d w) \<noteq> None))
     \<and> 0 \<le> task_MaxRetry t"

text \<open>The durations slept and the task ids called, as a trace lists them.\<close>

definition sleeps :: "event list \<Rightarrow> int list" where
  "sleeps es = concat (map (\<lambda>e. case e of Sleep d \<Rightarrow> [d] | _ \<Rightarrow> []) es)"

definition invocations :: "event list \<Rightarrow> string list" where
  "invocations es = concat (map (\<lambda>e. case e of Invoke i \<Rightarrow> [i] | _ \<Rightarrow> []) es)"










section \<open>Concrete data for the examples\<close>

definition demo_execution ::
  "string \<Rightarrow> JobStatus \<Rightarrow> (string \<rightharpoonup> TaskStatus) \<Rightarrow> unit JobExecution" where
  "demo_execution i st m = \<lparr>je_ID = i, je_DefinitionID = ''jd-1'', je_Status = st,
     je_StartTime = Some 1, je_EndTime = None, je_Data = (), je_TaskStatuses = m\<rparr>"

definition demo_db ::
  "unit JobExecution bucket \<Rightarrow> JobDefinition bucket \<Rightarrow> unit bucket \<Rightarrow> unit BoltDB" where
  "demo_db es ds q = \<lparr>job_definitions = ds, job_executions = es, queue = Some q,
     faults = [], committed = []\<rparr>"

definition demo_orch ::
  "unit BoltDB \<Rightarrow> string set \<Rightarrow> (string \<rightharpoonup> (unit, unit) TaskFunction)
     \<Rightarrow> (unit, unit) Orchestrator" where
  "demo_orch b og fs = \<lparr>db = b, workerPool = 0, ongoingJobs = og, taskFunctions = fs,
     maxConcurrent = 1, stop = False, done_closed = False, spawned = [],
     world = (), now = 100, trace = []\<rparr>"




text \<open>The two tasks of the specification's scenario, and their implementations.\<close>

definition demo_task1 :: Task where
  "demo_task1 = \<lparr>task_ID = ''task1'', task_Name = ''first'', task_MaxRetry = 0,
     task_FunctionName = ''task1Function''\<rparr>"

definition demo_task2 :: "int \<Rightarrow> Task" where
  "demo_task2 r = \<lparr>task_ID = ''task2'', task_Name = ''second'', task_MaxRetry = r,
     task_FunctionName = ''task2Function''\<rparr>"

definition succeeding :: "(unit, unit) TaskFunction" where
  "succeeding ctx d w = (None, w)"

definition failing :: "(unit, unit) TaskFunction" where
  "failing ctx d w = (Some ''boom'', w)"

definition demo_functions :: "string \<rightharpoonup> (unit, unit) TaskFunction" where
  "demo_functions = [''task1'' \<mapsto> succeeding, ''task2'' \<mapsto> failing]"

definition demo_registered :: "(unit, unit) Orchestrator" where
  "demo_registered = demo_orch (NewBoltDB []) {} demo_functions"

text \<open>The definition of the specification's scenario, and an orchestrator whose store
  holds that definition and one execution of it with the given status and task statuses.\<close>

definition demo_definition :: JobDefinition where
  "demo_definition = \<lparr>jd_ID = ''jd-1'', jd_Name = ''demo'', jd_Tasks = [demo_task1, demo_task2 1]\<rparr>"

definition demo_ready :: "JobStatus \<Rightarrow> (string \<rightharpoonup> TaskStatus) \<Rightarrow> (unit, unit) Orchestrator" where
  "demo_ready st m = demo_orch (demo_db [(''exec-1'', demo_execution ''exec-1'' st m)]
     [(''jd-1'', demo_definition)] [(''exec-1'', ())]) {} demo_functions"

text \<open>A store in which two executions were left in status RUNNING.\<close>

definition demo_two_running :: "unit BoltDB" where
  "demo_two_running = demo_db
     [(''exec-1'', demo_execution ''exec-1'' JobStatusRunning Map.empty),
      (''exec-2'', demo_execution ''exec-2'' JobStatusRunning Map.empty)] [] []"








section \<open>Properties\<close>

subsection \<open>Transactions without injected failures\<close>

lemma begin_tx_no_faults: "faults b = [] \<Longrightarrow> begin_tx b = (None, b)"
  by (simp add: begin_tx_def)

subsection \<open>Terminal executions are not run again\<close>

text \<open>
  C3. When the execution loaded for \<open>executionID\<close> has status COMPLETED or FAILED,
  \<^verbatim>\<open>ExecuteJob\<close> returns \<^verbatim>\<open>nil\<close> at once: the orchestrator state is the one it started
  from (same ongoing set, same world, no call of a task implementation, nothing slept
  or logged) except for the database handle returned by the load, whose three buckets
  and write history are those of the start.
\<close>

theorem ExecuteJob_terminal_noop:
  assumes "GetJobExecution executionID (db s) = (Inr je, b)"
    and "je_Status je = JobStatusCompleted \<or> je_Status je = JobStatusFailed"
  shows "ExecuteJob ctx executionID s = (None, s\<lparr>db := b\<rparr>)
     \<and> job_definitions b = job_definitions (db s)
     \<and> job_executions b = job_executions (db s)
     \<and> queue b = queue (db s)
     \<and> committed b = committed (db s)"
proof -
  have "ExecuteJob ctx executionID s = (None, s\<lparr>db := b\<rparr>)"
    using assms by (simp add: ExecuteJob_def)
  moreover have "job_definitions b = job_definitions (db s)
     \<and> job_executions b = job_executions (db s)
     \<and> queue b = queue (db s) \<and> committed b = committed (db s)"
    using assms(1)
    by (auto simp: GetJobExecution_def begin_tx_def split: list.splits option.splits)
  ultimately show ?thesis by simp
qed

theorem ExecuteJob_terminal_noop_witness:
  "ExecuteJob Background ''exec-1''
     (demo_orch (demo_db [(''exec-1'', demo_execution ''exec-1'' JobStatusCompleted Map.empty)] []
        [(''exec-1'', ())]) {''exec-1''} Map.empty)
   = (None, demo_orch (demo_db [(''exec-1'', demo_execution ''exec-1'' JobStatusCompleted Map.empty)] []
        [(''exec-1'', ())]) {''exec-1''} Map.empty)"
proof -
  let ?b = "demo_db [(''exec-1'', demo_execution ''exec-1'' JobStatusCompleted Map.empty)] [] [(''exec-1'', ())]"
  let ?s = "demo_orch ?b {''exec-1''} Map.empty"
  have g: "GetJobExecution ''exec-1'' (db ?s)
      = (Inr (demo_execution ''exec-1'' JobStatusCompleted Map.empty), ?b)"
    by (simp add: GetJobExecution_def begin_tx_def demo_orch_def demo_db_def bucket_Get_def)
  have t: "je_Status (demo_execution ''exec-1'' JobStatusCompleted Map.empty) = JobStatusCompleted
     \<or> je_Status (demo_execution ''exec-1'' JobStatusCompleted Map.empty) = JobStatusFailed"
    by (simp add: demo_execution_def)
  have "?s\<lparr>db := ?b\<rparr> = ?s" by (simp add: demo_orch_def)
  then show ?thesis using ExecuteJob_terminal_noop [OF g t, of Background] by simp
qed

subsection \<open>The empty queue\<close>

lemma DequeueJob_empty_iff:
  assumes "Some ''queue is empty'' \<notin> set (faults b)"
  shows "fst (DequeueJob b) = Inl ''queue is empty'' \<longleftrightarrow> queue b = Some [] \<and> fst (begin_tx b) = None"
  using assms
  by (auto simp: DequeueJob_def begin_tx_def cursor_First_def split: list.splits option.splits prod.splits)

text \<open>
  C6. \<^verbatim>\<open>DequeueJob\<close> fails with the message \<^verbatim>\<open>queue is empty\<close> exactly when the
  transaction starts and the queue bucket has no key (bbolt itself has no error with
  that message, which is the second assumption), and it leaves the buckets as they
  were. The scheduler loop tests for exactly that message: on it, a pass of the loop
  sleeps one second, logs nothing, dispatches nothing and goes round again; on any
  other dequeue error it logs the error and does not sleep; on a dequeued id it
  neither sleeps nor logs.
\<close>

theorem empty_queue_condition:
  assumes "\<not> stop s" and "Some ''queue is empty'' \<notin> set (faults (db s))"
  shows "(fst (DequeueJob (db s)) = Inl ''queue is empty''
            \<longleftrightarrow> queue (db s) = Some [] \<and> fst (begin_tx (db s)) = None)
     \<and> (fst (DequeueJob (db s)) = Inl ''queue is empty'' \<longrightarrow>
            processQueue_step s = (Continue, time_Sleep 1000000000 (s\<lparr>db := snd (DequeueJob (db s))\<rparr>))
          \<and> processQueue (Suc n) s = processQueue n (time_Sleep 1000000000 (s\<lparr>db := snd (DequeueJob (db s))\<rparr>))
          \<and> job_executions (snd (DequeueJob (db s))) = job_executions (db s)
          \<and> queue (snd (DequeueJob (db s))) = queue (db s))
     \<and> (\<forall>e. fst (DequeueJob (db s)) = Inl e \<and> e \<noteq> ''queue is empty'' \<longrightarrow>
            processQueue_step s = (Continue, log_Printf (''Error dequeuing job: '' @ e) (s\<lparr>db := snd (DequeueJob (db s))\<rparr>)))
     \<and> (\<forall>jobID. fst (DequeueJob (db s)) = Inr jobID \<longrightarrow>
            trace (snd (processQueue_step s)) = trace s)"
proof -
  have a: "fst (DequeueJob (db s)) = Inl ''queue is empty''
            \<longleftrightarrow> queue (db s) = Some [] \<and> fst (begin_tx (db s)) = None"
    using assms(2) by (rule DequeueJob_empty_iff)
  have b: "fst (DequeueJob (db s)) = Inl ''queue is empty'' \<Longrightarrow>
            processQueue_step s = (Continue, time_Sleep 1000000000 (s\<lparr>db := snd (DequeueJob (db s))\<rparr>))"
    using assms(1) by (cases "DequeueJob (db s)") (simp add: processQueue_step_def)
  have c: "fst (DequeueJob (db s)) = Inl ''queue is empty'' \<Longrightarrow>
       job_executions (snd (DequeueJob (db s))) = job_executions (db s)
          \<and> queue (snd (DequeueJob (db s))) = queue (db s)"
    by (auto simp: DequeueJob_def begin_tx_def cursor_First_def split: list.splits option.splits prod.splits)
  have d: "\<And>e. fst (DequeueJob (db s)) = Inl e \<Longrightarrow> e \<noteq> ''queue is empty'' \<Longrightarrow>
            processQueue_step s = (Continue, log_Printf (''Error dequeuing job: '' @ e) (s\<lparr>db := snd (DequeueJob (db s))\<rparr>))"
    using assms(1) by (cases "DequeueJob (db s)") (simp add: processQueue_step_def)
  have e: "\<And>jobID. fst (DequeueJob (db s)) = Inr jobID \<Longrightarrow>
            trace (snd (processQueue_step s)) = trace s"
    using assms(1) by (cases "DequeueJob (db s)") (simp add: processQueue_step_def)
  from a b c d e show ?thesis by simp
qed

theorem empty_queue_condition_witness:
  "processQueue (Suc 0) (demo_orch (demo_db [] [] []) {} Map.empty)
     = (Continue, time_Sleep 1000000000 (demo_orch (demo_db [] [] []) {} Map.empty))"
proof -
  let ?s = "demo_orch (demo_db [] [] []) {} Map.empty"
  have h1: "\<not> stop ?s" by (simp add: demo_orch_def)
  have h2: "Some ''queue is empty'' \<notin> set (faults (db ?s))" by (simp add: demo_orch_def demo_db_def)
  have dq: "DequeueJob (db ?s) = (Inl ''queue is empty'', db ?s)"
    by (simp add: DequeueJob_def begin_tx_def demo_orch_def demo_db_def cursor_First_def)
  have "?s\<lparr>db := db ?s\<rparr> = ?s" by simp
  then show ?thesis using empty_queue_condition [OF h1 h2, of 0] dq by simp
qed

subsection \<open>Order of the queue\<close>

text \<open>
  C5. The queue bucket is keyed by the execution id, so the queue is ordered by id, not
  by time of insertion: after \<^verbatim>\<open>EnqueueJob("job-b")\<close> and then \<^verbatim>\<open>EnqueueJob("job-a")\<close>
  on a new database, \<^verbatim>\<open>GetQueuedJobs\<close> lists \<^verbatim>\<open>job-a\<close> first and \<^verbatim>\<open>DequeueJob\<close> returns
  \<^verbatim>\<open>job-a\<close>, the entry inserted last.
\<close>

theorem queue_order_is_key_order_example:
  "fst (GetQueuedJobs (snd (EnqueueJob ''job-a'' (snd (EnqueueJob ''job-b'' (NewBoltDB [] :: unit BoltDB))))))
     = Inr [''job-a'', ''job-b'']
   \<and> fst (DequeueJob (snd (EnqueueJob ''job-a'' (snd (EnqueueJob ''job-b'' (NewBoltDB [] :: unit BoltDB))))))
     = Inr ''job-a''"
  by (simp add: GetQueuedJobs_def DequeueJob_def EnqueueJob_def NewBoltDB_def begin_tx_def
      bucket_Put_def cursor_First_def)

subsection \<open>Keys and buckets\<close>




lemma bucket_Put_valid: "valid_key k \<Longrightarrow> bucket_Put k v b = Inr (bucket_insert k v b)"
  by (simp add: bucket_Put_def valid_key_def)

lemma map_of_bucket_insert: "map_of (bucket_insert k v b) = (map_of b)(k \<mapsto> v)"
  by (induction b) (auto simp: fun_eq_iff)

lemma bucket_Get_insert: "bucket_Get k' (bucket_insert k v b) = (if k' = k then Some v else bucket_Get k' b)"
  by (simp add: bucket_Get_def map_of_bucket_insert)

lemma keys_bucket_insert: "fst ` set (bucket_insert k v b) = insert k (fst ` set b)"
  by (induction k v b rule: bucket_insert.induct) (simp_all add: insert_commute)


subsection \<open>Store operations when no transaction fails\<close>

lemma StoreJobExecution_ok:
  "faults b = [] \<Longrightarrow> valid_key (je_ID je) \<Longrightarrow>
   StoreJobExecution je b = (None, b\<lparr>job_executions := bucket_insert (je_ID je) je (job_executions b),
      committed := committed b @ [je]\<rparr>)"
  by (simp add: StoreJobExecution_def begin_tx_no_faults bucket_Put_valid)


lemma GetJobExecution_ok:
  "faults b = [] \<Longrightarrow> bucket_Get i (job_executions b) = Some je \<Longrightarrow> GetJobExecution i b = (Inr je, b)"
  by (simp add: GetJobExecution_def begin_tx_no_faults)


subsection \<open>Enqueueing for a definition that does not exist\<close>






subsection \<open>The retry loop\<close>

lemma attempt_events_step:
  "i < R \<Longrightarrow> attempt_events tid R i = Invoke tid # Sleep (backoff i) # attempt_events tid R (i + 1)"
  by (simp add: attempt_events_def upto_rec1)

lemma attempt_events_last: "attempt_events tid R R = [Invoke tid]"
  by (simp add: attempt_events_def)

lemma retry_loop_frame:
  "retry_loop ctx fn task data i s = (r, s') \<Longrightarrow>
     db s' = db s \<and> ongoingJobs s' = ongoingJobs s \<and> taskFunctions s' = taskFunctions s"
proof (induction "nat (task_MaxRetry task + 1 - i)" arbitrary: i s)
  case 0
  then have "\<not> i \<le> task_MaxRetry task" by simp
  then show ?case using "0.prems" by (subst (asm) retry_loop.simps) auto
next
  case (Suc n)
  then have le: "i \<le> task_MaxRetry task" by simp
  obtain err w' where f: "fn ctx data (world s) = (err, w')" by force
  let ?s1 = "s\<lparr>world := w', trace := trace s @ [Invoke (task_ID task)]\<rparr>"
  show ?case
  proof (cases "err = None \<or> i = task_MaxRetry task")
    case True
    then have "s' = ?s1"
      using Suc.prems le f by (subst (asm) retry_loop.simps) (auto simp: Let_def split: option.splits)
    then show ?thesis by simp
  next
    case False
    then have "retry_loop ctx fn task data (i + 1) (time_Sleep (backoff i) ?s1) = (r, s')"
      using Suc.prems le f by (subst (asm) retry_loop.simps) (auto simp: Let_def split: option.splits)
    moreover have "n = nat (task_MaxRetry task + 1 - (i + 1))" using Suc.hyps(2) by simp
    ultimately have "db s' = db (time_Sleep (backoff i) ?s1)
       \<and> ongoingJobs s' = ongoingJobs (time_Sleep (backoff i) ?s1)
       \<and> taskFunctions s' = taskFunctions (time_Sleep (backoff i) ?s1)"
      using Suc.hyps(1) by blast
    then show ?thesis by (simp add: time_Sleep_def)
  qed
qed


lemma retry_loop_always_fails:
  assumes "\<forall>w. fst (fn ctx data w) \<noteq> None"
  shows "0 \<le> i \<Longrightarrow> i \<le> task_MaxRetry task \<Longrightarrow>
     \<exists>e s'. retry_loop ctx fn task data i s =
        (Some (''task '' @ task_ID task @ '' failed after '' @ show_int (task_MaxRetry task)
                 @ '' retries: '' @ e), s')
      \<and> trace s' = trace s @ attempt_events (task_ID task) (task_MaxRetry task) i"
proof (induction "nat (task_MaxRetry task - i)" arbitrary: i s)
  case 0
  then have i: "i = task_MaxRetry task" by simp
  obtain e w' where f: "fn ctx data (world s) = (Some e, w')"
    using assms by (cases "fn ctx data (world s)") (auto, metis fst_conv)
  show ?case
    by (subst retry_loop.simps) (simp add: i f attempt_events_last)
next
  case (Suc n)
  then have lt: "i < task_MaxRetry task" by simp
  obtain e w' where f: "fn ctx data (world s) = (Some e, w')"
    using assms by (cases "fn ctx data (world s)") (auto, metis fst_conv)
  let ?s1 = "time_Sleep (backoff i) (s\<lparr>world := w', trace := trace s @ [Invoke (task_ID task)]\<rparr>)"
  have "n = nat (task_MaxRetry task - (i + 1))" using Suc.hyps(2) by simp
  from Suc.hyps(1) [OF this, of ?s1] Suc.prems lt
  obtain e' s' where r: "retry_loop ctx fn task data (i + 1) ?s1 =
        (Some (''task '' @ task_ID task @ '' failed after '' @ show_int (task_MaxRetry task)
                 @ '' retries: '' @ e'), s')"
      and t: "trace s' = trace ?s1 @ attempt_events (task_ID task) (task_MaxRetry task) (i + 1)"
    by auto
  show ?case
    apply (subst retry_loop.simps)
    using lt r t by (simp add: f attempt_events_step time_Sleep_def)
qed

lemma retry_loop_succeeds_first:
  assumes "fst (fn ctx data (world s)) = None" and "0 \<le> task_MaxRetry task"
  shows "retry_loop ctx fn task data 0 s =
     (None, s\<lparr>world := snd (fn ctx data (world s)), trace := trace s @ [Invoke (task_ID task)]\<rparr>)"
  using assms by (subst retry_loop.simps) (auto split: prod.splits)

subsection \<open>The task loop when no transaction fails\<close>

lemma UpdateJobExecution_ok:
  "faults b = [] \<Longrightarrow> valid_key (je_ID je) \<Longrightarrow>
   UpdateJobExecution je b = (None, b\<lparr>job_executions := bucket_insert (je_ID je) je (job_executions b),
      committed := committed b @ [je]\<rparr>)"
  by (simp add: UpdateJobExecution_def StoreJobExecution_ok)

lemma update_or_log_ok:
  "faults (db s) = [] \<Longrightarrow> valid_key (je_ID je) \<Longrightarrow> update_or_log msg je s = persist je s"
  by (simp add: update_or_log_def UpdateJobExecution_ok persist_def)

lemma persist_simps [simp]:
  "faults (db (persist je s)) = faults (db s)"
  "queue (db (persist je s)) = queue (db s)"
  "job_definitions (db (persist je s)) = job_definitions (db s)"
  "job_executions (db (persist je s)) = bucket_insert (je_ID je) je (job_executions (db s))"
  "committed (db (persist je s)) = committed (db s) @ [je]"
  "ongoingJobs (persist je s) = ongoingJobs s"
  "taskFunctions (persist je s) = taskFunctions s"
  "world (persist je s) = world s"
  "now (persist je s) = now s"
  "trace (persist je s) = trace s"
  by (simp_all add: persist_def)

lemma mark_all_Cons: "mark_all st (i # ids) m = mark_all st ids (m(i \<mapsto> st))"
  by (simp add: mark_all_def)

lemma mark_all_Nil: "mark_all st [] m = m"
  by (simp add: mark_all_def)

lemma run_tasks_step_success:
  assumes "always_succeeds s t" and "ctx (world s) = None"
    and "faults (db s) = []" and "valid_key (je_ID je)"
  shows "\<exists>s'. run_tasks ctx (t # rest) je s =
       run_tasks ctx rest (je\<lparr>je_TaskStatuses := (je_TaskStatuses je)(task_ID t \<mapsto> TaskStatusCompleted)\<rparr>) s'
     \<and> trace s' = trace s @ [Invoke (task_ID t)]
     \<and> faults (db s') = [] \<and> taskFunctions s' = taskFunctions s
     \<and> ongoingJobs s' = ongoingJobs s \<and> queue (db s') = queue (db s)
     \<and> job_definitions (db s') = job_definitions (db s) \<and> now s' = now s"
proof -
  obtain fn where fn: "taskFunctions s (task_ID t) = Some fn" "\<forall>c d w. fst (fn c d w) = None"
    and R: "0 \<le> task_MaxRetry t"
    using assms(1) by (auto simp: always_succeeds_def)
  let ?je1 = "je\<lparr>je_TaskStatuses := (je_TaskStatuses je)(task_ID t \<mapsto> TaskStatusRunning)\<rparr>"
  let ?s1 = "persist ?je1 s"
  let ?s2 = "?s1\<lparr>world := snd (fn ctx (je_Data je) (world s)),
                  trace := trace s @ [Invoke (task_ID t)]\<rparr>"
  let ?je2 = "je\<lparr>je_TaskStatuses := (je_TaskStatuses je)(task_ID t \<mapsto> TaskStatusCompleted)\<rparr>"
  have u1: "update_or_log ''Failed to update task status to running: '' ?je1 s = ?s1"
    using assms(3,4) by (simp add: update_or_log_ok)
  have ex: "executeTask ctx t (je_Data je) ?s1 = (None, ?s2)"
    using fn R retry_loop_succeeds_first [of fn ctx "je_Data je" ?s1 t]
    by (simp add: executeTask_def)
  have u2: "update_or_log ''Failed to update task status to completed: '' ?je2 ?s2 = persist ?je2 ?s2"
    using assms(3,4) by (simp add: update_or_log_ok)
  have "run_tasks ctx (t # rest) je s = run_tasks ctx rest ?je2 (persist ?je2 ?s2)"
    using assms(2) by (simp add: u1 ex u2 Let_def del: persist_simps)
  then show ?thesis
    using assms(3) by (intro exI [of _ "persist ?je2 ?s2"]) simp
qed

lemma run_tasks_all_succeed:
  assumes "\<forall>w. ctx w = None"
  shows "\<forall>t\<in>set pre. always_succeeds s t \<Longrightarrow> faults (db s) = [] \<Longrightarrow> valid_key (je_ID je) \<Longrightarrow>
    \<exists>s'. run_tasks ctx (pre @ rest) je s =
       run_tasks ctx rest
         (je\<lparr>je_TaskStatuses := mark_all TaskStatusCompleted (map task_ID pre) (je_TaskStatuses je)\<rparr>) s'
     \<and> trace s' = trace s @ map (\<lambda>t. Invoke (task_ID t)) pre
     \<and> faults (db s') = [] \<and> taskFunctions s' = taskFunctions s
     \<and> ongoingJobs s' = ongoingJobs s \<and> queue (db s') = queue (db s)
     \<and> job_definitions (db s') = job_definitions (db s) \<and> now s' = now s"
proof (induction pre arbitrary: je s)
  case Nil
  then show ?case by (intro exI [of _ s]) (simp add: mark_all_Nil)
next
  case (Cons t pre)
  let ?je' = "je\<lparr>je_TaskStatuses := (je_TaskStatuses je)(task_ID t \<mapsto> TaskStatusCompleted)\<rparr>"
  have "always_succeeds s t" "ctx (world s) = None"
    using Cons.prems(1) assms by simp_all
  from run_tasks_step_success [where s = s and t = t and ctx = ctx and je = je
      and rest = "pre @ rest", OF this Cons.prems(2,3)] obtain s1 where
    a: "run_tasks ctx (t # (pre @ rest)) je s = run_tasks ctx (pre @ rest) ?je' s1"
    and b: "trace s1 = trace s @ [Invoke (task_ID t)]" "faults (db s1) = []"
      "taskFunctions s1 = taskFunctions s" "ongoingJobs s1 = ongoingJobs s"
      "queue (db s1) = queue (db s)" "job_definitions (db s1) = job_definitions (db s)"
      "now s1 = now s"
    by blast
  have "\<forall>t\<in>set pre. always_succeeds s1 t"
    using Cons.prems(1) b(3) by (simp add: always_succeeds_def)
  then have "\<exists>s2. run_tasks ctx (pre @ rest) ?je' s1 =
       run_tasks ctx rest
         (?je'\<lparr>je_TaskStatuses := mark_all TaskStatusCompleted (map task_ID pre) (je_TaskStatuses ?je')\<rparr>) s2
     \<and> trace s2 = trace s1 @ map (\<lambda>t. Invoke (task_ID t)) pre
     \<and> faults (db s2) = [] \<and> taskFunctions s2 = taskFunctions s1
     \<and> ongoingJobs s2 = ongoingJobs s1 \<and> queue (db s2) = queue (db s1)
     \<and> job_definitions (db s2) = job_definitions (db s1) \<and> now s2 = now s1"
    using Cons.prems(3) b(2) by (intro Cons.IH) simp_all
  then obtain s2 where
    c: "run_tasks ctx (pre @ rest) ?je' s1 =
       run_tasks ctx rest
         (?je'\<lparr>je_TaskStatuses := mark_all TaskStatusCompleted (map task_ID pre) (je_TaskStatuses ?je')\<rparr>) s2"
    and d: "trace s2 = trace s1 @ map (\<lambda>t. Invoke (task_ID t)) pre" "faults (db s2) = []"
      "taskFunctions s2 = taskFunctions s1" "ongoingJobs s2 = ongoingJobs s1"
      "queue (db s2) = queue (db s1)" "job_definitions (db s2) = job_definitions (db s1)"
      "now s2 = now s1"
    by blast
  show ?case
    using a b c d by (intro exI [of _ s2]) (simp add: mark_all_Cons)
qed

lemma run_tasks_head_fails:
  assumes "always_fails s t" and "ctx (world s) = None"
    and "faults (db s) = []" and "valid_key (je_ID je)"
  shows "\<exists>e s'. run_tasks ctx (t # post) je s =
       (Some (''task '' @ task_ID t @ '' failed: task '' @ task_ID t @ '' failed after ''
                @ show_int (task_MaxRetry t) @ '' retries: '' @ e),
        je\<lparr>je_TaskStatuses := (je_TaskStatuses je)(task_ID t \<mapsto> TaskStatusFailed),
           je_Status := JobStatusFailed\<rparr>, s')
     \<and> trace s' = trace s @ attempt_events (task_ID t) (task_MaxRetry t) 0
     \<and> faults (db s') = [] \<and> taskFunctions s' = taskFunctions s
     \<and> ongoingJobs s' = ongoingJobs s \<and> queue (db s') = queue (db s)
     \<and> job_definitions (db s') = job_definitions (db s)"
proof -
  obtain fn where fn: "taskFunctions s (task_ID t) = Some fn" "\<forall>c d w. fst (fn c d w) \<noteq> None"
    and R: "0 \<le> task_MaxRetry t"
    using assms(1) by (auto simp: always_fails_def)
  let ?je1 = "je\<lparr>je_TaskStatuses := (je_TaskStatuses je)(task_ID t \<mapsto> TaskStatusRunning)\<rparr>"
  let ?s1 = "persist ?je1 s"
  let ?je2 = "je\<lparr>je_TaskStatuses := (je_TaskStatuses je)(task_ID t \<mapsto> TaskStatusFailed),
                    je_Status := JobStatusFailed\<rparr>"
  have u1: "update_or_log ''Failed to update task status to running: '' ?je1 s = ?s1"
    using assms(3,4) by (simp add: update_or_log_ok)
  from fn(2) have af: "\<forall>w. fst (fn ctx (je_Data je) w) \<noteq> None" by simp
  from retry_loop_always_fails [where fn = fn and ctx = ctx and data = "je_Data je"
      and i = 0 and task = t and s = ?s1, OF af] R
  obtain e s2 where r: "retry_loop ctx fn t (je_Data je) 0 ?s1 =
        (Some (''task '' @ task_ID t @ '' failed after '' @ show_int (task_MaxRetry t)
                 @ '' retries: '' @ e), s2)"
    and tr: "trace s2 = trace ?s1 @ attempt_events (task_ID t) (task_MaxRetry t) 0"
    by auto
  have fr: "db s2 = db ?s1" "ongoingJobs s2 = ongoingJobs ?s1" "taskFunctions s2 = taskFunctions ?s1"
    using retry_loop_frame [OF r] by simp_all
  have ex: "executeTask ctx t (je_Data je) ?s1 =
        (Some (''task '' @ task_ID t @ '' failed after '' @ show_int (task_MaxRetry t)
                 @ '' retries: '' @ e), s2)"
    using fn(1) r by (simp add: executeTask_def)
  have u2: "update_or_log ''Failed to update job execution after task failure: '' ?je2 s2 = persist ?je2 s2"
    using assms(3,4) fr by (simp add: update_or_log_ok)
  have "run_tasks ctx (t # post) je s =
       (Some (''task '' @ task_ID t @ '' failed: task '' @ task_ID t @ '' failed after ''
                @ show_int (task_MaxRetry t) @ '' retries: '' @ e), ?je2, persist ?je2 s2)"
    using assms(2) by (simp add: u1 ex u2 Let_def del: persist_simps)
  then show ?thesis
    using assms(3) tr fr by (intro exI [of _ e] exI [of _ "persist ?je2 s2"]) simp
qed

subsection \<open>The deferred cleanup\<close>


lemma RemoveFromQueue_ok:
  "faults b = [] \<Longrightarrow> queue b = Some q \<Longrightarrow>
   RemoveFromQueue k b = (None, b\<lparr>queue := Some (bucket_Delete k q)\<rparr>)"
  by (simp add: RemoveFromQueue_def begin_tx_no_faults)

lemma cleanup_ok:
  assumes "faults (db s) = []" and "valid_key (je_ID je)" and "queue (db s) = Some q"
  shows "cleanup executionID je s =
     (let s2 = persist (je\<lparr>je_EndTime := Some (now s)\<rparr>) (s\<lparr>ongoingJobs := ongoingJobs s - {executionID}\<rparr>)
      in s2\<lparr>db := (db s2)\<lparr>queue := Some (bucket_Delete executionID q)\<rparr>\<rparr>)"
  using assms by (simp add: cleanup_def Let_def update_or_log_ok RemoveFromQueue_ok)

lemma cleanup_effect:
  assumes "faults (db s) = []" and "valid_key (je_ID je)" and "queue (db s) = Some q"
  shows "bucket_Get (je_ID je) (job_executions (db (cleanup executionID je s)))
           = Some (je\<lparr>je_EndTime := Some (now s)\<rparr>)"
    and "committed (db (cleanup executionID je s)) = committed (db s) @ [je\<lparr>je_EndTime := Some (now s)\<rparr>]"
    and "queue (db (cleanup executionID je s)) = Some (bucket_Delete executionID q)"
    and "trace (cleanup executionID je s) = trace s"
    and "now (cleanup executionID je s) = now s"
    and "faults (db (cleanup executionID je s)) = []"
  using assms by (simp_all add: cleanup_ok Let_def bucket_Get_insert)


lemma ExecuteJob_late:
  assumes "GetJobExecution executionID (db s) = (Inr je, b1)"
    and "je_Status je \<noteq> JobStatusCompleted" "je_Status je \<noteq> JobStatusFailed"
    and "GetJobDefinition (je_DefinitionID je) b1 = (Inr jd, b2)"
    and "UpdateJobExecution (je\<lparr>je_Status := JobStatusRunning\<rparr>) b2 = (None, b3)"
    and "run_tasks ctx (jd_Tasks jd) (je\<lparr>je_Status := JobStatusRunning\<rparr>)
           (s\<lparr>db := b3, ongoingJobs := insert executionID (ongoingJobs s)\<rparr>) = (r, je2, s2)"
  shows "ExecuteJob ctx executionID s =
     (case r of
        Some e \<Rightarrow> (Some e, cleanup executionID je2 s2)
      | None \<Rightarrow>
          (case UpdateJobExecution (je2\<lparr>je_Status := JobStatusCompleted\<rparr>) (db s2) of
             (Some e, b4) \<Rightarrow>
               (Some (''failed to update job execution status to completed: '' @ e),
                cleanup executionID (je2\<lparr>je_Status := JobStatusCompleted\<rparr>) (s2\<lparr>db := b4\<rparr>))
           | (None, b4) \<Rightarrow>
               (None, cleanup executionID (je2\<lparr>je_Status := JobStatusCompleted\<rparr>) (s2\<lparr>db := b4\<rparr>))))"
  using assms by (simp add: ExecuteJob_def Let_def split: option.splits prod.splits)

lemma GetJobDefinition_ok:
  "faults b = [] \<Longrightarrow> bucket_Get i (job_definitions b) = Some jd \<Longrightarrow> GetJobDefinition i b = (Inr jd, b)"
  by (simp add: GetJobDefinition_def begin_tx_no_faults)

subsection \<open>Fail-fast\<close>

lemma run_tasks_stops_at_error:
  "fst (run_tasks ctx ts je s) \<noteq> None \<Longrightarrow> run_tasks ctx (ts @ rest) je s = run_tasks ctx ts je s"
  by (induction ts arbitrary: je s) (auto simp: Let_def split: option.splits prod.splits)

lemma run_tasks_error_marks_failed:
  "fst (run_tasks ctx ts je s) \<noteq> None \<Longrightarrow>
     je_Status (fst (snd (run_tasks ctx ts je s))) = JobStatusFailed"
  by (induction ts arbitrary: je s) (auto simp: Let_def split: option.splits prod.splits)

text \<open>
  C2. Take a stored execution that is not terminal, whose definition's task sequence is
  \<open>pre @ task # post\<close> where every task of \<open>pre\<close> always succeeds and \<open>task\<close> always
  fails; no transaction fails and the context is never cancelled. Then \<^verbatim>\<open>ExecuteJob\<close>
  returns the error of \<open>task\<close> after its retries; the execution it leaves in the store
  has status FAILED, the tasks of \<open>pre\<close> COMPLETED and \<open>task\<close> FAILED; and the trace it
  adds is one call for each task of \<open>pre\<close>, then the \<open>maxRetry + 1\<close> calls of \<open>task\<close>
  with their back-off sleeps, and nothing else: no task of \<open>post\<close> is called. The
  last part holds for every run, whatever the tasks and the store do: once the loop
  over a sequence \<open>ts\<close> ends with an error, the job is marked FAILED and any tasks
  \<open>rest\<close> that follow in the definition change nothing of the result. The example
  after the theorem is the scenario of the specification: task1 (maxRetry 0, succeeds)
  and task2 (maxRetry 1, fails).
\<close>

theorem ExecuteJob_fail_fast:
  fixes s :: "('d, 'w) Orchestrator"
  assumes nf: "faults (db s) = []" and q: "queue (db s) = Some q"
    and st: "bucket_Get executionID (job_executions (db s)) = Some je"
    and id: "je_ID je = executionID" and vk: "valid_key executionID"
    and nt: "je_Status je \<noteq> JobStatusCompleted" "je_Status je \<noteq> JobStatusFailed"
    and jd: "bucket_Get (je_DefinitionID je) (job_definitions (db s)) = Some jd"
    and tasks: "jd_Tasks jd = pre @ task # post"
    and ctx: "\<forall>w. ctx w = None"
    and pre: "\<forall>t\<in>set pre. always_succeeds s t"
    and fails: "always_fails s task"
  shows "(\<exists>e. fst (ExecuteJob ctx executionID s) =
             Some (''task '' @ task_ID task @ '' failed: task '' @ task_ID task @ '' failed after ''
                @ show_int (task_MaxRetry task) @ '' retries: '' @ e))
     \<and> bucket_Get executionID (job_executions (db (snd (ExecuteJob ctx executionID s)))) =
         Some (je\<lparr>je_Status := JobStatusFailed,
                  je_EndTime := Some (now (snd (ExecuteJob ctx executionID s))),
                  je_TaskStatuses :=
                    (mark_all TaskStatusCompleted (map task_ID pre) (je_TaskStatuses je))
                      (task_ID task \<mapsto> TaskStatusFailed)\<rparr>)
     \<and> trace (snd (ExecuteJob ctx executionID s)) =
         trace s @ map (\<lambda>t. Invoke (task_ID t)) pre
           @ attempt_events (task_ID task) (task_MaxRetry task) 0
     \<and> (\<forall>ts rest (je0 :: 'd JobExecution) (s0 :: ('d, 'w) Orchestrator).
           fst (run_tasks ctx ts je0 s0) \<noteq> None \<longrightarrow>
             run_tasks ctx (ts @ rest) je0 s0 = run_tasks ctx ts je0 s0
             \<and> je_Status (fst (snd (run_tasks ctx ts je0 s0))) = JobStatusFailed)"
proof -
  let ?je1 = "je\<lparr>je_Status := JobStatusRunning\<rparr>"
  let ?s1 = "(persist ?je1 s)\<lparr>ongoingJobs := insert executionID (ongoingJobs s)\<rparr>"
  have g1: "GetJobExecution executionID (db s) = (Inr je, db s)"
    using nf st by (rule GetJobExecution_ok)
  have g2: "GetJobDefinition (je_DefinitionID je) (db s) = (Inr jd, db s)"
    using nf jd by (rule GetJobDefinition_ok)
  have g3: "UpdateJobExecution ?je1 (db s) = (None, db (persist ?je1 s))"
    using nf id vk by (simp add: UpdateJobExecution_ok persist_def)
  have s1: "s\<lparr>db := db (persist ?je1 s), ongoingJobs := insert executionID (ongoingJobs s)\<rparr> = ?s1"
    by (simp add: persist_def)
  have nf1: "faults (db ?s1) = []" using nf by simp
  have vk1: "valid_key (je_ID ?je1)" using id vk by simp
  have pre1: "\<forall>t\<in>set pre. always_succeeds ?s1 t"
    using pre by (simp add: always_succeeds_def)
  from run_tasks_all_succeed [OF ctx pre1 nf1 vk1, of "task # post"]
  obtain sP where
    a: "run_tasks ctx (pre @ task # post) ?je1 ?s1 =
          run_tasks ctx (task # post)
            (?je1\<lparr>je_TaskStatuses := mark_all TaskStatusCompleted (map task_ID pre) (je_TaskStatuses ?je1)\<rparr>) sP"
    and b: "trace sP = trace ?s1 @ map (\<lambda>t. Invoke (task_ID t)) pre" "faults (db sP) = []"
      "taskFunctions sP = taskFunctions ?s1" "ongoingJobs sP = ongoingJobs ?s1"
      "queue (db sP) = queue (db ?s1)" "now sP = now ?s1"
    by blast
  let ?jeP = "?je1\<lparr>je_TaskStatuses := mark_all TaskStatusCompleted (map task_ID pre) (je_TaskStatuses ?je1)\<rparr>"
  have failsP: "always_fails sP task" using fails b(3) by (simp add: always_fails_def)
  have ctxP: "ctx (world sP) = None" using ctx by simp
  have vkP: "valid_key (je_ID ?jeP)" using id vk by simp
  from run_tasks_head_fails [where s = sP and t = task and ctx = ctx and je = ?jeP and post = post,
      OF failsP ctxP b(2) vkP]
  obtain e sF where
    c: "run_tasks ctx (task # post) ?jeP sP =
       (Some (''task '' @ task_ID task @ '' failed: task '' @ task_ID task @ '' failed after ''
                @ show_int (task_MaxRetry task) @ '' retries: '' @ e),
        ?jeP\<lparr>je_TaskStatuses := (je_TaskStatuses ?jeP)(task_ID task \<mapsto> TaskStatusFailed),
           je_Status := JobStatusFailed\<rparr>, sF)"
    and d: "trace sF = trace sP @ attempt_events (task_ID task) (task_MaxRetry task) 0"
      "faults (db sF) = []" "queue (db sF) = queue (db sP)"
    by blast
  let ?jeF = "?jeP\<lparr>je_TaskStatuses := (je_TaskStatuses ?jeP)(task_ID task \<mapsto> TaskStatusFailed),
           je_Status := JobStatusFailed\<rparr>"
  have run: "run_tasks ctx (jd_Tasks jd) ?je1
       (s\<lparr>db := db (persist ?je1 s), ongoingJobs := insert executionID (ongoingJobs s)\<rparr>) =
       (Some (''task '' @ task_ID task @ '' failed: task '' @ task_ID task @ '' failed after ''
                @ show_int (task_MaxRetry task) @ '' retries: '' @ e), ?jeF, sF)"
    unfolding s1 tasks a c ..
  have E: "ExecuteJob ctx executionID s =
       (Some (''task '' @ task_ID task @ '' failed: task '' @ task_ID task @ '' failed after ''
                @ show_int (task_MaxRetry task) @ '' retries: '' @ e), cleanup executionID ?jeF sF)"
    using ExecuteJob_late [OF g1 nt g2 g3 run] by simp
  have vkF: "valid_key (je_ID ?jeF)" using id vk by simp
  have qF: "queue (db sF) = Some q" using d(3) b(5) q by simp
  note ce = cleanup_effect [OF d(2) vkF qF, of executionID]
  have idF: "je_ID ?jeF = executionID" using id by simp
  have 1: "\<exists>e. fst (ExecuteJob ctx executionID s) =
             Some (''task '' @ task_ID task @ '' failed: task '' @ task_ID task @ '' failed after ''
                @ show_int (task_MaxRetry task) @ '' retries: '' @ e)"
    unfolding E by (intro exI [of _ e]) simp
  have 2: "bucket_Get executionID (job_executions (db (snd (ExecuteJob ctx executionID s)))) =
         Some (je\<lparr>je_Status := JobStatusFailed,
                  je_EndTime := Some (now (snd (ExecuteJob ctx executionID s))),
                  je_TaskStatuses :=
                    (mark_all TaskStatusCompleted (map task_ID pre) (je_TaskStatuses je))
                      (task_ID task \<mapsto> TaskStatusFailed)\<rparr>)"
    using ce(1) ce(5) unfolding E idF by simp
  have 3: "trace (snd (ExecuteJob ctx executionID s)) =
         trace s @ map (\<lambda>t. Invoke (task_ID t)) pre
           @ attempt_events (task_ID task) (task_MaxRetry task) 0"
    unfolding E using ce(4) d(1) b(1) by simp
  have 4: "\<forall>ts rest (je0 :: 'd JobExecution) (s0 :: ('d, 'w) Orchestrator).
           fst (run_tasks ctx ts je0 s0) \<noteq> None \<longrightarrow>
             run_tasks ctx (ts @ rest) je0 s0 = run_tasks ctx ts je0 s0
             \<and> je_Status (fst (snd (run_tasks ctx ts je0 s0))) = JobStatusFailed"
    by (simp add: run_tasks_stops_at_error run_tasks_error_marks_failed)
  from 1 2 3 4 show ?thesis by blast
qed

lemma show_int_1: "show_int 1 = ''1''"
  by (simp add: show_int_def show_nat.simps digit_char_def)

lemma attempt_events_1: "attempt_events tid 1 0 = [Invoke tid, Sleep 1000000000, Invoke tid]"
  by (simp add: attempt_events_def backoff_def)

theorem ExecuteJob_fail_fast_witness:
  "(\<exists>e. fst (ExecuteJob Background ''exec-1'' (demo_ready JobStatusQueued Map.empty)) =
       Some (''task task2 failed: task task2 failed after 1 retries: '' @ e))
   \<and> map_option je_Status (bucket_Get ''exec-1'' (job_executions (db (snd
         (ExecuteJob Background ''exec-1'' (demo_ready JobStatusQueued Map.empty))))))
       = Some JobStatusFailed
   \<and> map_option je_TaskStatuses (bucket_Get ''exec-1'' (job_executions (db (snd
         (ExecuteJob Background ''exec-1'' (demo_ready JobStatusQueued Map.empty))))))
       = Some [''task1'' \<mapsto> TaskStatusCompleted, ''task2'' \<mapsto> TaskStatusFailed]
   \<and> trace (snd (ExecuteJob Background ''exec-1'' (demo_ready JobStatusQueued Map.empty)))
       = [Invoke ''task1'', Invoke ''task2'', Sleep 1000000000, Invoke ''task2'']
   \<and> fst (run_tasks Background [demo_task2 1]
         (demo_execution ''exec-1'' JobStatusQueued Map.empty)
         (demo_ready JobStatusQueued Map.empty)) \<noteq> None
   \<and> run_tasks Background ([demo_task2 1] @ [demo_task1])
         (demo_execution ''exec-1'' JobStatusQueued Map.empty)
         (demo_ready JobStatusQueued Map.empty)
       = run_tasks Background [demo_task2 1]
         (demo_execution ''exec-1'' JobStatusQueued Map.empty)
         (demo_ready JobStatusQueued Map.empty)"
proof -
  let ?s = "demo_ready JobStatusQueued Map.empty"
  let ?je = "demo_execution ''exec-1'' JobStatusQueued Map.empty"
  have nf: "faults (db ?s) = []" and q: "queue (db ?s) = Some [(''exec-1'', ())]"
    by (simp_all add: demo_ready_def demo_orch_def demo_db_def)
  have st: "bucket_Get ''exec-1'' (job_executions (db ?s)) = Some ?je"
    by (simp add: demo_ready_def demo_orch_def demo_db_def bucket_Get_def)
  have id: "je_ID ?je = ''exec-1''" by (simp add: demo_execution_def)
  have vk: "valid_key ''exec-1''" by (simp add: valid_key_def)
  have nt: "je_Status ?je \<noteq> JobStatusCompleted" "je_Status ?je \<noteq> JobStatusFailed"
    by (simp_all add: demo_execution_def)
  have jd: "bucket_Get (je_DefinitionID ?je) (job_definitions (db ?s)) = Some demo_definition"
    by (simp add: demo_ready_def demo_orch_def demo_db_def bucket_Get_def demo_execution_def)
  have tasks: "jd_Tasks demo_definition = [demo_task1] @ demo_task2 1 # []"
    by (simp add: demo_definition_def)
  have ctx: "\<forall>w :: unit. Background w = None" by (simp add: Background_def)
  have pre: "\<forall>t\<in>set [demo_task1]. always_succeeds ?s t"
    by (simp add: always_succeeds_def demo_ready_def demo_orch_def demo_functions_def
        demo_task1_def succeeding_def)
  have fails: "always_fails ?s (demo_task2 1)"
    by (simp add: always_fails_def demo_ready_def demo_orch_def demo_functions_def
        demo_task2_def failing_def)
  note t = ExecuteJob_fail_fast [OF nf q st id vk nt jd tasks ctx pre fails]
  have tr: "trace ?s = []" by (simp add: demo_ready_def demo_orch_def)
  have a: "\<exists>e. fst (ExecuteJob Background ''exec-1'' ?s) =
       Some (''task task2 failed: task task2 failed after 1 retries: '' @ e)"
    using t [THEN conjunct1] by (simp add: demo_task2_def show_int_1)
  have b: "map_option je_Status (bucket_Get ''exec-1'' (job_executions (db (snd
         (ExecuteJob Background ''exec-1'' ?s))))) = Some JobStatusFailed"
    by (simp add: t [THEN conjunct2, THEN conjunct1])
  have c: "map_option je_TaskStatuses (bucket_Get ''exec-1'' (job_executions (db (snd
         (ExecuteJob Background ''exec-1'' ?s)))))
       = Some [''task1'' \<mapsto> TaskStatusCompleted, ''task2'' \<mapsto> TaskStatusFailed]"
    by (simp add: t [THEN conjunct2, THEN conjunct1] mark_all_def demo_task1_def demo_task2_def
        demo_execution_def)
  have d: "trace (snd (ExecuteJob Background ''exec-1'' ?s))
       = [Invoke ''task1'', Invoke ''task2'', Sleep 1000000000, Invoke ''task2'']"
    by (simp add: t [THEN conjunct2, THEN conjunct2, THEN conjunct1] tr demo_task1_def
        demo_task2_def attempt_events_1)
  have e: "fst (run_tasks Background [demo_task2 1] ?je ?s) \<noteq> None"
    using run_tasks_head_fails [where s = ?s and t = "demo_task2 1" and ctx = Background
        and je = ?je and post = "[]", OF fails _ nf]
    by (auto simp: Background_def id vk)
  have f: "run_tasks Background ([demo_task2 1] @ [demo_task1]) ?je ?s
       = run_tasks Background [demo_task2 1] ?je ?s"
    using t [THEN conjunct2, THEN conjunct2, THEN conjunct2, rule_format, OF e] by simp
  from a b c d e f show ?thesis by blast
qed

subsection \<open>Retries and back-off\<close>

lemma backoff_exact:
  assumes "0 \<le> k" and "k \<le> 33"
  shows "backoff k = 2 ^ nat k * 1000000000"
proof -
  define x :: int where "x = 2 ^ nat k * 1000000000"
  have "(2::int) ^ nat k \<le> 2 ^ 33" using assms by (intro power_increasing) auto
  then have x1: "x \<le> 2 ^ 33 * 1000000000" by (simp add: x_def)
  have x0: "0 \<le> x" by (simp add: x_def)
  have b: "- (2 ^ 63) \<le> x" "x < 2 ^ 63" using x0 x1 by simp_all
  have "sint (word_of_int x :: 64 word) = x"
    using b by (simp add: signed_of_int signed_take_bit_int_eq_self)
  moreover have "push_bit (nat k) (1 :: 64 word) * 1000000000 = word_of_int x"
    by (simp add: x_def push_bit_eq_mult)
  ultimately show ?thesis by (simp add: backoff_def x_def)
qed

lemma backoff_34: "backoff 34 = - 1266874889709551616"
  by (simp add: backoff_def)

lemma backoff_bound: "backoff k < 9223372036854775808"
  using sint_lt [of "push_bit (nat k) (1 :: 64 word) * 1000000000"] by (simp add: backoff_def)

lemma sleeps_attempts:
  "sleeps (concat (map (\<lambda>k. [Invoke tid, Sleep (backoff k)]) ks) @ [Invoke tid]) = map backoff ks"
  by (induction ks) (simp_all add: sleeps_def)

lemma invocations_attempts:
  "invocations (concat (map (\<lambda>k. [Invoke tid, Sleep (backoff k)]) ks) @ [Invoke tid])
     = replicate (Suc (length ks)) tid"
  by (induction ks) (simp_all add: invocations_def)

lemma sleeps_attempt_events: "sleeps (attempt_events tid R i) = map backoff [i..R - 1]"
  by (simp add: attempt_events_def sleeps_attempts)

lemma invocations_attempt_events:
  "i \<le> R \<Longrightarrow> invocations (attempt_events tid R i) = replicate (nat (R - i + 1)) tid"
  by (simp add: attempt_events_def invocations_attempts Suc_nat_eq_nat_zadd1)

lemma executeTask_always_fails:
  assumes "taskFunctions s (task_ID task) = Some fn"
    and "\<forall>w. fst (fn ctx data w) \<noteq> None" and "0 \<le> task_MaxRetry task"
  shows "(\<exists>e. fst (executeTask ctx task data s) =
            Some (''task '' @ task_ID task @ '' failed after '' @ show_int (task_MaxRetry task)
                    @ '' retries: '' @ e))
     \<and> trace (snd (executeTask ctx task data s))
          = trace s @ attempt_events (task_ID task) (task_MaxRetry task) 0"
proof -
  from retry_loop_always_fails [where fn = fn and ctx = ctx and data = data
      and i = 0 and task = task and s = s, OF assms(2)] assms(3)
  obtain e s' where "retry_loop ctx fn task data 0 s =
        (Some (''task '' @ task_ID task @ '' failed after '' @ show_int (task_MaxRetry task)
                 @ '' retries: '' @ e), s')"
    and "trace s' = trace s @ attempt_events (task_ID task) (task_MaxRetry task) 0"
    by auto
  then show ?thesis using assms(1) by (simp add: executeTask_def)
qed

text \<open>
  For a registered task that fails at every attempt, with \<open>maxRetry = R \<ge> 0\<close>:
  \<^verbatim>\<open>executeTask\<close> calls the implementation \<open>R + 1\<close> times, sleeps \<open>backoff i\<close> after
  attempt \<open>i\<close> for \<open>i = 0..R - 1\<close>, and returns the error that names the task id and
  \<open>R\<close>. By \<open>backoff_exact\<close> the sleep is \<open>2 ^ i\<close> seconds for \<open>i \<le> 33\<close>.
\<close>

lemma executeTask_retries_exhausted:
  assumes "taskFunctions s (task_ID task) = Some fn"
    and "\<forall>w. fst (fn ctx data w) \<noteq> None" and "0 \<le> task_MaxRetry task"
  shows "(\<exists>e. fst (executeTask ctx task data s) =
            Some (''task '' @ task_ID task @ '' failed after '' @ show_int (task_MaxRetry task)
                    @ '' retries: '' @ e))
     \<and> (\<exists>es. trace (snd (executeTask ctx task data s)) = trace s @ es
          \<and> invocations es = replicate (nat (task_MaxRetry task + 1)) (task_ID task)
          \<and> sleeps es = map backoff [0..task_MaxRetry task - 1])"
  using executeTask_always_fails [OF assms] assms(3)
  by (auto simp: sleeps_attempt_events invocations_attempt_events)

lemma Sleep_in_attempt_events:
  "i \<le> k \<Longrightarrow> k < R \<Longrightarrow> Sleep (backoff k) \<in> set (attempt_events tid R i)"
  by (auto simp: attempt_events_def)

lemma Sleep_in_attempt_events_bound:
  "Sleep d \<in> set (attempt_events tid R i) \<Longrightarrow> d < 9223372036854775808"
  by (auto simp: attempt_events_def backoff_bound split: if_splits)

text \<open>
  C1. The back-off is computed in 64-bit nanoseconds. For a task with \<open>maxRetry = 35\<close>
  that always fails, the sleep after attempt 34 is \<^verbatim>\<open>time.Duration(1<<34) * time.Second\<close>,
  which wraps around to \<open>-1266874889709551616\<close> nanoseconds: \<^verbatim>\<open>executeTask\<close> calls
  \<^verbatim>\<open>time.Sleep\<close> with that negative duration, and never with \<open>2 ^ 34\<close> seconds.
\<close>

theorem backoff_overflow_example:
  "Sleep (- 1266874889709551616)
      \<in> set (trace (snd (executeTask Background (demo_task2 35) () demo_registered)))
   \<and> Sleep (2 ^ 34 * 1000000000)
      \<notin> set (trace (snd (executeTask Background (demo_task2 35) () demo_registered)))"
proof -
  have a: "taskFunctions demo_registered (task_ID (demo_task2 35)) = Some failing"
    by (simp add: demo_registered_def demo_orch_def demo_functions_def demo_task2_def)
  have b: "\<forall>w. fst (failing Background () w) \<noteq> None" by (simp add: failing_def)
  have c: "0 \<le> task_MaxRetry (demo_task2 35)" by (simp add: demo_task2_def)
  have t: "trace (snd (executeTask Background (demo_task2 35) () demo_registered))
     = attempt_events ''task2'' 35 0"
    using executeTask_always_fails [OF a b c]
    by (simp add: demo_registered_def demo_orch_def demo_task2_def)
  have "Sleep (backoff 34) \<in> set (attempt_events ''task2'' 35 0)"
    by (rule Sleep_in_attempt_events) simp_all
  moreover have "Sleep (2 ^ 34 * 1000000000) \<notin> set (attempt_events ''task2'' 35 0)"
    using Sleep_in_attempt_events_bound [of "2 ^ 34 * 1000000000" "''task2''" 35 0] by auto
  ultimately show ?thesis by (simp add: t backoff_34)
qed

subsection \<open>Recovery and the worker pool\<close>

text \<open>
  C9. \<^verbatim>\<open>recoverState\<close> puts every RUNNING execution into the ongoing set and starts
  \<^verbatim>\<open>ExecuteJob\<close> for it without sending to \<^verbatim>\<open>workerPool\<close>. With two RUNNING executions in
  the store, \<^verbatim>\<open>New(db, 1)\<close> returns an orchestrator whose ongoing set has two members,
  with two job goroutines started and no unit of the pool taken.
\<close>

theorem recovery_bypasses_worker_pool_example:
  "New demo_two_running 1 () 100 =
     Inr ((demo_orch demo_two_running {''exec-1'', ''exec-2''} Map.empty)
            \<lparr>spawned := [Go_ExecuteJob ''exec-1'', Go_ExecuteJob ''exec-2'', Go_processQueue]\<rparr>)
   \<and> maxConcurrent (demo_orch demo_two_running {''exec-1'', ''exec-2''} Map.empty) = 1
   \<and> workerPool (demo_orch demo_two_running {''exec-1'', ''exec-2''} Map.empty) = 0
   \<and> card {''exec-1'', ''exec-2''} = 2"
  by (simp add: New_def recoverState_def GetRunningJobs_def begin_tx_def demo_two_running_def
      demo_db_def demo_orch_def demo_execution_def insert_commute)

subsection \<open>Where the cleanup runs\<close>








subsection \<open>Task statuses over time\<close>

















subsection \<open>The recorded task statuses do not steer a run\<close>














subsection \<open>Recovery\<close>












subsection \<open>The queue is ordered by key\<close>

text \<open>
  What holds in general for the order of the queue: \<^verbatim>\<open>Put\<close> keeps a bucket sorted by key with each key
  once, so \<^verbatim>\<open>GetQueuedJobs\<close> lists the ids in ascending byte order and \<^verbatim>\<open>DequeueJob\<close>
  returns the least id in the queue. This is the order of insertion only as long as
  ids are enqueued in ascending byte order.
\<close>

lemma bucket_insert_sorted:
  "sorted (map fst b) \<Longrightarrow> distinct (map fst b) \<Longrightarrow>
     sorted (map fst (bucket_insert k v b)) \<and> distinct (map fst (bucket_insert k v b))"
proof (induction k v b rule: bucket_insert.induct)
  case (1 k v)
  then show ?case by simp
next
  case (2 k v k' v' b)
  have keys: "fst ` set (bucket_insert k v b) = insert k (fst ` set b)"
    by (rule keys_bucket_insert)
  show ?case
  proof (cases "k < k'")
    case True
    then show ?thesis using "2.prems" by auto
  next
    case False
    show ?thesis
    proof (cases "k = k'")
      case True
      then show ?thesis using "2.prems" by auto
    next
      case ne: False
      then have "k' < k" using False by simp
      then show ?thesis
        using "2.IH" "2.prems" False ne keys by (auto simp: less_imp_le)
    qed
  qed
qed

lemma DequeueJob_least:
  assumes "queue b = Some q" and "sorted (map fst q)" and "fst (begin_tx b) = None"
    and "q \<noteq> []"
  shows "\<exists>k. fst (DequeueJob b) = Inr k \<and> k \<in> fst ` set q \<and> (\<forall>k'\<in>fst ` set q. k \<le> k')"
proof -
  obtain b' where b: "begin_tx b = (None, b')"
    using assms(3) by (cases "begin_tx b") simp
  then have q: "queue b' = Some q" using assms(1) by (auto simp: begin_tx_def split: list.splits)
  obtain k v r where c: "q = (k, v) # r" using assms(4) by (cases q) auto
  have "fst (DequeueJob b) = Inr k"
    using b q c by (simp add: DequeueJob_def cursor_First_def)
  moreover have "\<forall>k'\<in>fst ` set q. k \<le> k'" using assms(2) c by auto
  ultimately show ?thesis using c by auto
qed

end
